theory Spec2Isabelle
  imports Main
begin

section \<open>The cache table and the storage client\<close>

text \<open>
  The cache of the disaster-coordination server is the class \<open>CacheManager\<close>, which
  the routes import from \<^verbatim>\<open>../config/supabase.js\<close> (in the sources it is the
  second part of \<^verbatim>\<open>server/middleware/errorHandler.js\<close>): three static methods
  \<open>get\<close>, \<open>set\<close> and \<open>delete\<close> over the table \<open>cache\<close> of the migration
  \<^verbatim>\<open>
  CREATE TABLE IF NOT EXISTS cache (
    key text PRIMARY KEY,
    value jsonb NOT NULL,
    expires_at timestamptz NOT NULL
  );
  \<close>
  A row is a record of the three columns. The payload type \<open>'v\<close> stands for the
  non-null JSON documents the column \<open>value\<close> holds; \<open>expires_at\<close> is the instant in
  milliseconds since the epoch, which is what \<open>Date.toISOString\<close> writes and
  \<open>new Date(string)\<close> reads back. The table is the list of its rows, so that the primary
  key is a property to be kept and not a property of the type.
\<close>

record 'v cache_row =
  cache_key :: string
  cache_value :: 'v
  expires_at :: int

type_synonym 'v cache_table = "'v cache_row list"

text \<open>The filter \<^verbatim>\<open>.eq('key', key)\<close>: the rows of the table under a key.\<close>

definition eq_key :: "string \<Rightarrow> 'v cache_table \<Rightarrow> 'v cache_row list" where
  "eq_key key tbl = filter (\<lambda>r. cache_key r = key) tbl"

text \<open>\<^verbatim>\<open>key text PRIMARY KEY\<close>: no two rows share a key.\<close>

definition primary_key :: "'v cache_table \<Rightarrow> bool" where
  "primary_key tbl = distinct (map cache_key tbl)"

text \<open>
  What a JavaScript \<open>throw\<close> carries here: the \<open>RangeError\<close> of
  \<open>toISOString\<close> on an invalid date, a rejected request promise, or the \<open>error\<close>
  object of a storage response (\<^verbatim>\<open>if (error) throw error\<close>).
\<close>

datatype pg_error = NotSingleRow | BackendError

datatype js_error = RangeError | FetchFailed | Thrown pg_error

text \<open>The \<^verbatim>\<open>{ data, error }\<close> object a storage request resolves to.\<close>

record 'a response =
  data :: "'a option"
  error :: "pg_error option"

text \<open>
  The storage backend is outside the program. Each request takes, as an input of the
  model, how the backend answers it: normally, with the \<open>error\<close> field set
  (a query error, a constraint violation, a response that does not decode), or not
  at all (the promise rejects). A request that is not answered normally leaves the
  table as it was.
\<close>

datatype storage_reply = Answers | AnswersError | Rejects

text \<open>
  \<^verbatim>\<open>.select('value, expires_at').eq('key', key).single()\<close>: the one row under the
  key; \<open>single\<close> answers with an error when there is no row, or more than one.
\<close>

definition select_single ::
  "storage_reply \<Rightarrow> string \<Rightarrow> 'v cache_table \<Rightarrow> js_error + 'v cache_row response" where
  "select_single reply key tbl =
     (case reply of
        Rejects \<Rightarrow> Inl FetchFailed
      | AnswersError \<Rightarrow> Inr \<lparr>data = None, error = Some BackendError\<rparr>
      | Answers \<Rightarrow>
          (case eq_key key tbl of
             [r] \<Rightarrow> Inr \<lparr>data = Some r, error = None\<rparr>
           | _ \<Rightarrow> Inr \<lparr>data = None, error = Some NotSingleRow\<rparr>))"

text \<open>
  \<^verbatim>\<open>.upsert({ key, value, expires_at })\<close>: insert the row, or on a conflict on the
  primary key replace the row that holds the key.
\<close>

fun upsert_row :: "'v cache_row \<Rightarrow> 'v cache_table \<Rightarrow> 'v cache_table" where
  "upsert_row r [] = [r]"
| "upsert_row r (x # xs) =
     (if cache_key x = cache_key r then r # xs else x # upsert_row r xs)"

definition upsert ::
  "storage_reply \<Rightarrow> 'v cache_row \<Rightarrow> 'v cache_table \<Rightarrow>
     (js_error + unit response) \<times> 'v cache_table" where
  "upsert reply r tbl =
     (case reply of
        Rejects \<Rightarrow> (Inl FetchFailed, tbl)
      | AnswersError \<Rightarrow> (Inr \<lparr>data = None, error = Some BackendError\<rparr>, tbl)
      | Answers \<Rightarrow> (Inr \<lparr>data = None, error = None\<rparr>, upsert_row r tbl))"

text \<open>\<^verbatim>\<open>.delete().eq('key', key)\<close>: remove every row under the key.\<close>

definition delete_eq ::
  "storage_reply \<Rightarrow> string \<Rightarrow> 'v cache_table \<Rightarrow>
     (js_error + unit response) \<times> 'v cache_table" where
  "delete_eq reply key tbl =
     (case reply of
        Rejects \<Rightarrow> (Inl FetchFailed, tbl)
      | AnswersError \<Rightarrow> (Inr \<lparr>data = None, error = Some BackendError\<rparr>, tbl)
      | Answers \<Rightarrow>
          (Inr \<lparr>data = None, error = None\<rparr>, filter (\<lambda>r. cache_key r \<noteq> key) tbl))"

section \<open>Dates\<close>

text \<open>
  \<open>new Date(t)\<close> clips the time value: beyond 8.64e15 milliseconds on either side of
  the epoch the date is invalid (\<open>None\<close>), and \<open>toISOString\<close> of an invalid date
  throws a \<open>RangeError\<close>. The time-to-live is a whole number of minutes, as at every
  call site (15, 30, 60, 1440); on whole numbers the double arithmetic of
  \<^verbatim>\<open>Date.now() + ttlMinutes * 60 * 1000\<close> is exact wherever the date is valid.
\<close>

definition new_Date :: "int \<Rightarrow> int option" where
  "new_Date t = (if \<bar>t\<bar> \<le> 8640000000000000 then Some t else None)"

definition toISOString :: "int option \<Rightarrow> js_error + int" where
  "toISOString d = (case d of None \<Rightarrow> Inl RangeError | Some t \<Rightarrow> Inr t)"

section \<open>CacheManager\<close>

text \<open>
  An asynchronous method yields a value or throws (\<open>Inl\<close>), and leaves the table in
  some state. \<^verbatim>\<open>try { body } catch (error) { handler }\<close> runs the handler on what the
  body throws. \<^verbatim>\<open>console.error\<close> only logs and is left out.
\<close>

type_synonym ('a, 'v) outcome = "(js_error + 'a) \<times> 'v cache_table"

definition try_catch ::
  "('a, 'v) outcome \<Rightarrow> (js_error \<Rightarrow> 'v cache_table \<Rightarrow> ('a, 'v) outcome) \<Rightarrow> ('a, 'v) outcome" where
  "try_catch body handler =
     (case body of (Inl e, tbl) \<Rightarrow> handler e tbl | (Inr a, tbl) \<Rightarrow> (Inr a, tbl))"

text \<open>
  \<^verbatim>\<open>
  static async delete(key) {
    try {
      const { error } = await supabase.from('cache').delete().eq('key', key);
      if (error) throw error;
      return true;
    } catch (error) { console.error(...); return false; }
  }
  \<close>
  \<open>del\<close> is how the backend answers the delete request.
\<close>

definition delete_body :: "string \<Rightarrow> storage_reply \<Rightarrow> 'v cache_table \<Rightarrow> (bool, 'v) outcome" where
  "delete_body key del tbl =
     (case delete_eq del key tbl of
        (Inl e, tbl') \<Rightarrow> (Inl e, tbl')
      | (Inr resp, tbl') \<Rightarrow>
          (case error resp of
             Some e \<Rightarrow> (Inl (Thrown e), tbl')
           | None \<Rightarrow> (Inr True, tbl')))"

definition CacheManager_delete ::
  "string \<Rightarrow> storage_reply \<Rightarrow> 'v cache_table \<Rightarrow> (bool, 'v) outcome" where
  "CacheManager_delete key del tbl =
     try_catch (delete_body key del tbl) (\<lambda>e tbl'. (Inr False, tbl'))"

text \<open>
  \<^verbatim>\<open>
  static async get(key) {
    try {
      const { data, error } = await supabase.from('cache')
        .select('value, expires_at').eq('key', key).single();
      if (error || !data) return null;
      if (new Date(data.expires_at) < new Date()) {
        await this.delete(key);
        return null;
      }
      return data.value;
    } catch (error) { console.error(...); return null; }
  }
  \<close>
  \<open>now\<close> is the clock as \<open>new Date()\<close> reads it at the check, \<open>sel\<close> and \<open>del\<close>
  are how the backend answers the select and the delete. The result \<open>None\<close> is
  JavaScript's \<open>null\<close>.
\<close>

definition get_body ::
  "string \<Rightarrow> int \<Rightarrow> storage_reply \<Rightarrow> storage_reply \<Rightarrow> 'v cache_table \<Rightarrow>
     ('v option, 'v) outcome" where
  "get_body key now sel del tbl =
     (case select_single sel key tbl of
        Inl e \<Rightarrow> (Inl e, tbl)
      | Inr resp \<Rightarrow>
          (case (error resp, data resp) of
             (Some e, _) \<Rightarrow> (Inr None, tbl)
           | (None, None) \<Rightarrow> (Inr None, tbl)
           | (None, Some row) \<Rightarrow>
               if expires_at row < now
               then (case CacheManager_delete key del tbl of
                       (Inl e, tbl') \<Rightarrow> (Inl e, tbl')
                     | (Inr _, tbl') \<Rightarrow> (Inr None, tbl'))
               else (Inr (Some (cache_value row)), tbl)))"

definition CacheManager_get ::
  "string \<Rightarrow> int \<Rightarrow> storage_reply \<Rightarrow> storage_reply \<Rightarrow> 'v cache_table \<Rightarrow>
     ('v option, 'v) outcome" where
  "CacheManager_get key now sel del tbl =
     try_catch (get_body key now sel del tbl) (\<lambda>e tbl'. (Inr None, tbl'))"

text \<open>
  \<^verbatim>\<open>
  static async set(key, value, ttlMinutes = 60) {
    try {
      const expiresAt = new Date(Date.now() + ttlMinutes * 60 * 1000);
      const { error } = await supabase.from('cache')
        .upsert({ key, value, expires_at: expiresAt.toISOString() });
      if (error) throw error;
      return true;
    } catch (error) { console.error(...); return false; }
  }
  \<close>
  \<open>ttlMinutes\<close> is \<open>None\<close> when the caller leaves the argument out, \<open>now\<close> is what
  \<open>Date.now()\<close> reads, \<open>ups\<close> is how the backend answers the upsert. The request is
  built, and sent, only when \<open>toISOString\<close> has not thrown.
\<close>

definition ttl_or_default :: "int option \<Rightarrow> int" where
  "ttl_or_default ttlMinutes = (case ttlMinutes of None \<Rightarrow> 60 | Some t \<Rightarrow> t)"

definition set_body ::
  "string \<Rightarrow> 'v \<Rightarrow> int option \<Rightarrow> int \<Rightarrow> storage_reply \<Rightarrow> 'v cache_table \<Rightarrow>
     (bool, 'v) outcome" where
  "set_body key value ttlMinutes now ups tbl =
     (let expiresAt = new_Date (now + ttl_or_default ttlMinutes * 60 * 1000)
      in case toISOString expiresAt of
           Inl e \<Rightarrow> (Inl e, tbl)
         | Inr stamp \<Rightarrow>
             (case upsert ups \<lparr>cache_key = key, cache_value = value, expires_at = stamp\<rparr> tbl of
                (Inl e, tbl') \<Rightarrow> (Inl e, tbl')
              | (Inr resp, tbl') \<Rightarrow>
                  (case error resp of
                     Some e \<Rightarrow> (Inl (Thrown e), tbl')
                   | None \<Rightarrow> (Inr True, tbl'))))"

definition CacheManager_set ::
  "string \<Rightarrow> 'v \<Rightarrow> int option \<Rightarrow> int \<Rightarrow> storage_reply \<Rightarrow> 'v cache_table \<Rightarrow>
     (bool, 'v) outcome" where
  "CacheManager_set key value ttlMinutes now ups tbl =
     try_catch (set_body key value ttlMinutes now ups tbl) (\<lambda>e tbl'. (Inr False, tbl'))"

section \<open>The table under the three requests\<close>

lemma keys_upsert_row:
  "map cache_key (upsert_row r tbl) =
     (if cache_key r \<in> set (map cache_key tbl) then map cache_key tbl
      else map cache_key tbl @ [cache_key r])"
  by (induction tbl) auto

lemma primary_key_upsert_row: "primary_key tbl \<Longrightarrow> primary_key (upsert_row r tbl)"
  by (simp add: primary_key_def keys_upsert_row)

lemma eq_key_absent: "key \<notin> set (map cache_key tbl) \<Longrightarrow> eq_key key tbl = []"
  unfolding eq_key_def by (induction tbl) auto

lemma eq_key_upsert_row:
  "primary_key tbl \<Longrightarrow> eq_key (cache_key r) (upsert_row r tbl) = [r]"
  unfolding primary_key_def eq_key_def
proof (induction tbl)
  case Nil
  then show ?case by simp
next
  case (Cons x xs)
  have absent: "cache_key x = cache_key r \<Longrightarrow> filter (\<lambda>y. cache_key y = cache_key r) xs = []"
    using Cons.prems eq_key_absent [of "cache_key r" xs] by (simp add: eq_key_def)
  show ?case using Cons absent by auto
qed

lemma eq_key_upsert_row_other:
  "key \<noteq> cache_key r \<Longrightarrow> eq_key key (upsert_row r tbl) = eq_key key tbl"
  unfolding eq_key_def by (induction tbl) auto

lemma upsert_row_twice:
  "cache_key r1 = cache_key r2 \<Longrightarrow> upsert_row r2 (upsert_row r1 tbl) = upsert_row r2 tbl"
  by (induction tbl) auto

lemma eq_key_member:
  "primary_key tbl \<Longrightarrow> r \<in> set tbl \<Longrightarrow> eq_key (cache_key r) tbl = [r]"
  unfolding primary_key_def eq_key_def
proof (induction tbl)
  case Nil
  then show ?case by simp
next
  case (Cons x xs)
  show ?case
  proof (cases "x = r")
    case True
    then have "filter (\<lambda>y. cache_key y = cache_key r) xs = []"
      using Cons.prems eq_key_absent [of "cache_key r" xs] by (simp add: eq_key_def)
    with True show ?thesis by simp
  next
    case False
    then have "r \<in> set xs" using Cons.prems by simp
    moreover have "cache_key x \<noteq> cache_key r"
      using Cons.prems \<open>r \<in> set xs\<close> by auto
    ultimately show ?thesis using Cons by simp
  qed
qed

lemma eq_key_deleted: "eq_key key (filter (\<lambda>r. cache_key r \<noteq> key) tbl) = []"
  by (simp add: eq_key_def filter_empty_conv)

lemma primary_key_filter: "primary_key tbl \<Longrightarrow> primary_key (filter P tbl)"
  by (simp add: primary_key_def distinct_map_filter)

lemma length_eq_key: "primary_key tbl \<Longrightarrow> length (eq_key key tbl) \<le> 1"
proof (induction tbl)
  case Nil
  then show ?case by (simp add: eq_key_def)
next
  case (Cons x xs)
  then have "cache_key x = key \<Longrightarrow> eq_key key xs = []"
    using eq_key_absent [of key xs] by (simp add: primary_key_def)
  then show ?case using Cons by (simp add: eq_key_def primary_key_def)
qed

lemma delete_Answers:
  "CacheManager_delete key Answers tbl = (Inr True, filter (\<lambda>r. cache_key r \<noteq> key) tbl)"
  by (simp add: CacheManager_delete_def try_catch_def delete_body_def delete_eq_def)

lemma delete_fails:
  "del \<noteq> Answers \<Longrightarrow> CacheManager_delete key del tbl = (Inr False, tbl)"
  by (cases del) (simp_all add: CacheManager_delete_def try_catch_def delete_body_def delete_eq_def)

lemma delete_returns: "\<exists>b. fst (CacheManager_delete key del tbl) = Inr b"
  by (cases del) (auto simp add: delete_Answers delete_fails)

lemma set_Answers:
  "\<bar>now + ttl_or_default ttlMinutes * 60 * 1000\<bar> \<le> 8640000000000000 \<Longrightarrow>
   CacheManager_set key value ttlMinutes now Answers tbl =
     (Inr True, upsert_row \<lparr>cache_key = key, cache_value = value,
        expires_at = now + ttl_or_default ttlMinutes * 60 * 1000\<rparr> tbl)"
  by (simp add: CacheManager_set_def try_catch_def set_body_def upsert_def
      new_Date_def toISOString_def)

lemma set_fails:
  "ups \<noteq> Answers \<Longrightarrow> CacheManager_set key value ttlMinutes now ups tbl = (Inr False, tbl)"
  by (cases ups) (simp_all add: CacheManager_set_def try_catch_def set_body_def upsert_def
      new_Date_def toISOString_def Let_def)

lemma set_invalid_date:
  "\<not> \<bar>now + ttl_or_default ttlMinutes * 60 * 1000\<bar> \<le> 8640000000000000 \<Longrightarrow>
   CacheManager_set key value ttlMinutes now ups tbl = (Inr False, tbl)"
  by (simp add: CacheManager_set_def try_catch_def set_body_def new_Date_def toISOString_def)

lemma set_succeeds:
  assumes "CacheManager_set key value ttlMinutes now ups tbl = (Inr True, tbl')"
  shows "ups = Answers \<and> \<bar>now + ttl_or_default ttlMinutes * 60 * 1000\<bar> \<le> 8640000000000000 \<and>
         tbl' = upsert_row \<lparr>cache_key = key, cache_value = value,
           expires_at = now + ttl_or_default ttlMinutes * 60 * 1000\<rparr> tbl"
proof -
  have a: "ups = Answers" using assms set_fails [of ups key "value" ttlMinutes now tbl] by auto
  have b: "\<bar>now + ttl_or_default ttlMinutes * 60 * 1000\<bar> \<le> 8640000000000000"
    using assms set_invalid_date [of now ttlMinutes key "value" ups tbl] by auto
  show ?thesis using assms a b set_Answers [OF b, of key "value" tbl] by simp
qed

lemma set_returns: "\<exists>b. fst (CacheManager_set key value ttlMinutes now ups tbl) = Inr b"
proof (cases "ups = Answers \<and> \<bar>now + ttl_or_default ttlMinutes * 60 * 1000\<bar> \<le> 8640000000000000")
  case True
  then show ?thesis by (auto simp: set_Answers)
next
  case False
  then show ?thesis using set_fails set_invalid_date by (metis fst_conv)
qed

lemma get_select_fails:
  "sel \<noteq> Answers \<Longrightarrow> CacheManager_get key now sel del tbl = (Inr None, tbl)"
  by (cases sel) (simp_all add: CacheManager_get_def try_catch_def get_body_def select_single_def)

lemma get_not_single:
  "(\<And>r. eq_key key tbl \<noteq> [r]) \<Longrightarrow> CacheManager_get key now sel del tbl = (Inr None, tbl)"
  by (cases sel; cases "eq_key key tbl"; cases "tl (eq_key key tbl)")
     (auto simp add: CacheManager_get_def try_catch_def get_body_def select_single_def)

lemma get_fresh:
  "eq_key key tbl = [r] \<Longrightarrow> \<not> expires_at r < now \<Longrightarrow>
   CacheManager_get key now Answers del tbl = (Inr (Some (cache_value r)), tbl)"
  by (simp add: CacheManager_get_def try_catch_def get_body_def select_single_def)

lemma get_expired:
  "eq_key key tbl = [r] \<Longrightarrow> expires_at r < now \<Longrightarrow>
   CacheManager_get key now Answers del tbl = (Inr None, snd (CacheManager_delete key del tbl))"
  by (cases del)
     (simp_all add: CacheManager_get_def try_catch_def get_body_def select_single_def
       delete_Answers delete_fails)

lemma get_returns: "\<exists>a. fst (CacheManager_get key now sel del tbl) = Inr a"
proof (cases "sel = Answers")
  case False
  then show ?thesis by (simp add: get_select_fails)
next
  case True
  show ?thesis
  proof (cases "\<exists>r. eq_key key tbl = [r]")
    case False
    then show ?thesis by (simp add: get_not_single)
  next
    case True
    then obtain r where "eq_key key tbl = [r]" by blast
    then show ?thesis using \<open>sel = Answers\<close> get_fresh get_expired
      by (cases "expires_at r < now") fastforce+
  qed
qed

lemma get_Some:
  assumes "CacheManager_get key now sel del tbl = (Inr (Some v), tbl')"
  shows "\<exists>r. eq_key key tbl = [r] \<and> cache_value r = v \<and> \<not> expires_at r < now \<and> tbl' = tbl"
proof -
  have s: "sel = Answers" using assms get_select_fails [of sel key now del tbl] by auto
  have "\<exists>r. eq_key key tbl = [r]" using assms get_not_single [of key tbl now sel del] by auto
  then obtain r where r: "eq_key key tbl = [r]" by blast
  have f: "\<not> expires_at r < now" using assms s get_expired [OF r, of now del] by auto
  show ?thesis using assms s r f get_fresh [OF r f, of del] by auto
qed


lemma primary_key_set:
  "primary_key tbl \<Longrightarrow> primary_key (snd (CacheManager_set key value ttlMinutes now ups tbl))"
proof (cases "ups = Answers \<and> \<bar>now + ttl_or_default ttlMinutes * 60 * 1000\<bar> \<le> 8640000000000000")
  case True
  assume "primary_key tbl"
  then show ?thesis using True by (simp add: set_Answers primary_key_upsert_row)
next
  case False
  assume "primary_key tbl"
  moreover have "CacheManager_set key value ttlMinutes now ups tbl = (Inr False, tbl)"
    using False set_fails [of ups key "value" ttlMinutes now tbl]
      set_invalid_date [of now ttlMinutes key "value" ups tbl] by auto
  ultimately show ?thesis by simp
qed

lemma primary_key_delete:
  "primary_key tbl \<Longrightarrow> primary_key (snd (CacheManager_delete key del tbl))"
  by (cases del) (simp_all add: delete_Answers delete_fails primary_key_filter)

lemma get_table:
  "snd (CacheManager_get key now sel del tbl) = tbl \<or>
   snd (CacheManager_get key now sel del tbl) = snd (CacheManager_delete key del tbl)"
proof (cases "sel = Answers")
  case False
  then show ?thesis by (simp add: get_select_fails)
next
  case True
  show ?thesis
  proof (cases "\<exists>r. eq_key key tbl = [r]")
    case False
    then show ?thesis by (simp add: get_not_single)
  next
    case True
    then obtain r where "eq_key key tbl = [r]" by blast
    then show ?thesis using \<open>sel = Answers\<close> get_fresh get_expired
      by (cases "expires_at r < now") fastforce+
  qed
qed

lemma primary_key_get:
  "primary_key tbl \<Longrightarrow> primary_key (snd (CacheManager_get key now sel del tbl))"
  using get_table [of key now sel del tbl] primary_key_delete [of tbl key del] by auto

lemma get_after_set:
  assumes pk: "primary_key tbl"
    and ok: "CacheManager_set key value ttlMinutes now ups tbl = (Inr True, tbl')"
  shows "eq_key key tbl' =
     [\<lparr>cache_key = key, cache_value = value,
        expires_at = now + ttl_or_default ttlMinutes * 60 * 1000\<rparr>]"
proof -
  let ?r = "\<lparr>cache_key = key, cache_value = value,
        expires_at = now + ttl_or_default ttlMinutes * 60 * 1000\<rparr>"
  have "tbl' = upsert_row ?r tbl" using set_succeeds [OF ok] by simp
  then show ?thesis using eq_key_upsert_row [OF pk, of ?r] by simp
qed

section \<open>Arguments are not validated\<close>

text \<open>
  C1 says that \<open>set\<close> rejects an empty key and a non-positive time-to-live with an
  invalid-argument failure and writes nothing. \<open>set\<close> checks neither: the two
  calls of the specification's scenario, \<open>set("", "v", 60)\<close> and
  \<open>set("k", "v", 0)\<close>, on an empty table with the backend answering, both return
  \<open>true\<close>, and the first creates a row under the key \<open>""\<close>.
\<close>

theorem C1_set_rejects_invalid_arguments_counterexample:
  "CacheManager_set [] ''v'' (Some 60) 0 Answers [] =
     (Inr True, [\<lparr>cache_key = [], cache_value = ''v'', expires_at = 3600000\<rparr>])
   \<and> CacheManager_set ''k'' ''v'' (Some 0) 0 Answers [] =
     (Inr True, [\<lparr>cache_key = ''k'', cache_value = ''v'', expires_at = 0\<rparr>])"
  by (simp add: CacheManager_set_def try_catch_def set_body_def upsert_def
      new_Date_def toISOString_def ttl_or_default_def)

text \<open>
  C1, as the code has it. For every call \<open>set(key, value, ttl)\<close> with an empty key or
  a non-positive \<open>ttl\<close>, on a table that keeps its primary key: the call is treated
  as any other. When the expiry is a valid date and the backend answers the upsert,
  \<open>set\<close> returns \<open>true\<close> and the one row under the key (the key \<open>""\<close>
  included) holds the value and the expiry \<open>now + ttl\<close> minutes; when the backend
  fails or the date is invalid, it returns \<open>false\<close> and the table is unchanged.
\<close>

theorem C1_set_does_not_validate:
  assumes "key = [] \<or> ttl \<le> 0" and "primary_key tbl"
  shows "(\<bar>now + ttl * 60 * 1000\<bar> \<le> 8640000000000000 \<longrightarrow>
            CacheManager_set key value (Some ttl) now Answers tbl =
              (Inr True,
               upsert_row \<lparr>cache_key = key, cache_value = value,
                 expires_at = now + ttl * 60 * 1000\<rparr> tbl)
            \<and> eq_key key
                (upsert_row \<lparr>cache_key = key, cache_value = value,
                   expires_at = now + ttl * 60 * 1000\<rparr> tbl) =
              [\<lparr>cache_key = key, cache_value = value, expires_at = now + ttl * 60 * 1000\<rparr>])
         \<and> (ups \<noteq> Answers \<or> \<not> \<bar>now + ttl * 60 * 1000\<bar> \<le> 8640000000000000 \<longrightarrow>
              CacheManager_set key value (Some ttl) now ups tbl = (Inr False, tbl))"
proof (intro conjI impI)
  let ?r = "\<lparr>cache_key = key, cache_value = value, expires_at = now + ttl * 60 * 1000\<rparr>"
  assume d: "\<bar>now + ttl * 60 * 1000\<bar> \<le> 8640000000000000"
  then show "CacheManager_set key value (Some ttl) now Answers tbl = (Inr True, upsert_row ?r tbl)"
    using set_Answers [of now "Some ttl" key "value" tbl] by (simp add: ttl_or_default_def)
  show "eq_key key (upsert_row ?r tbl) = [?r]"
    using eq_key_upsert_row [OF assms(2), of ?r] by simp
next
  assume "ups \<noteq> Answers \<or> \<not> \<bar>now + ttl * 60 * 1000\<bar> \<le> 8640000000000000"
  then show "CacheManager_set key value (Some ttl) now ups tbl = (Inr False, tbl)"
    using set_fails [of ups key "value" "Some ttl" now tbl]
      set_invalid_date [of now "Some ttl" key "value" ups tbl]
    by (auto simp: ttl_or_default_def)
qed

theorem C1_set_does_not_validate_witness:
  "CacheManager_set [] ''v'' (Some 15) 1000 Answers
       [\<lparr>cache_key = [], cache_value = ''u'', expires_at = 5\<rparr>] =
     (Inr True, [\<lparr>cache_key = [], cache_value = ''v'', expires_at = 901000\<rparr>])
   \<and> CacheManager_set [] ''v'' (Some 15) 1000 Rejects
       [\<lparr>cache_key = [], cache_value = ''u'', expires_at = 5\<rparr>] =
     (Inr False, [\<lparr>cache_key = [], cache_value = ''u'', expires_at = 5\<rparr>])"
proof -
  let ?tbl = "[\<lparr>cache_key = [], cache_value = ''u'', expires_at = (5::int)\<rparr>]"
  have a: "[] = ([]::string) \<or> (15::int) \<le> 0" by simp
  have pk: "primary_key ?tbl" by (simp add: primary_key_def)
  show ?thesis
    using C1_set_does_not_validate [OF a pk, of 1000 "''v''" Answers]
      C1_set_does_not_validate [OF a pk, of 1000 "''v''" Rejects]
    by simp
qed

section \<open>Reads never serve an expired entry\<close>

text \<open>
  C2. For every key and every table, \<open>get(key)\<close> never returns a value whose
  \<open>expires_at\<close> is strictly before the clock at the check: what it returns is the
  value of the one row under the key, that row is not expired, and the table is left
  as it is. When the row stored under the key is expired, \<open>get\<close> runs
  \<open>delete(key)\<close> and returns absent; the table is then what the delete leaves, the
  rows of the other keys when the backend answers the delete and the unchanged
  table when the delete fails, and the result is absent all the same. When the row is
  not expired, \<open>get\<close> returns its value unchanged.
\<close>

theorem C2_get_never_serves_expired:
  "(CacheManager_get key now sel del tbl = (Inr (Some v), tbl') \<longrightarrow>
      tbl' = tbl \<and>
      (\<exists>r. eq_key key tbl = [r] \<and> cache_value r = v \<and> \<not> expires_at r < now))
   \<and> (primary_key tbl \<and> r \<in> set tbl \<and> cache_key r = key \<and> expires_at r < now \<longrightarrow>
        CacheManager_get key now Answers del tbl =
          (Inr None, snd (CacheManager_delete key del tbl))
        \<and> (del = Answers \<longrightarrow>
              snd (CacheManager_delete key del tbl) = filter (\<lambda>x. cache_key x \<noteq> key) tbl)
        \<and> (del \<noteq> Answers \<longrightarrow> CacheManager_get key now Answers del tbl = (Inr None, tbl)))
   \<and> (primary_key tbl \<and> r \<in> set tbl \<and> cache_key r = key \<and> \<not> expires_at r < now \<longrightarrow>
        CacheManager_get key now Answers del tbl = (Inr (Some (cache_value r)), tbl))"
proof (intro conjI impI)
  assume "CacheManager_get key now sel del tbl = (Inr (Some v), tbl')"
  from get_Some [OF this]
  show "tbl' = tbl"
    and "\<exists>r. eq_key key tbl = [r] \<and> cache_value r = v \<and> \<not> expires_at r < now"
    by auto
next
  assume h: "primary_key tbl \<and> r \<in> set tbl \<and> cache_key r = key \<and> expires_at r < now"
  then have row: "eq_key key tbl = [r]" using eq_key_member [of tbl r] by auto
  from h have old: "expires_at r < now" by simp
  show e: "CacheManager_get key now Answers del tbl =
      (Inr None, snd (CacheManager_delete key del tbl))"
    by (rule get_expired [OF row old])
  show "snd (CacheManager_delete key del tbl) = filter (\<lambda>x. cache_key x \<noteq> key) tbl"
    if "del = Answers"
    using that by (simp add: delete_Answers)
  show "CacheManager_get key now Answers del tbl = (Inr None, tbl)" if "del \<noteq> Answers"
    using e that by (simp add: delete_fails)
next
  assume h: "primary_key tbl \<and> r \<in> set tbl \<and> cache_key r = key \<and> \<not> expires_at r < now"
  then have row: "eq_key key tbl = [r]" using eq_key_member [of tbl r] by auto
  from h have fresh: "\<not> expires_at r < now" by simp
  show "CacheManager_get key now Answers del tbl = (Inr (Some (cache_value r)), tbl)"
    by (rule get_fresh [OF row fresh])
qed

theorem C2_get_never_serves_expired_witness:
  "CacheManager_get ''k'' 61000 Answers Rejects
       [\<lparr>cache_key = ''k'', cache_value = ''v'', expires_at = 60000\<rparr>] =
     (Inr None, [\<lparr>cache_key = ''k'', cache_value = ''v'', expires_at = 60000\<rparr>])
   \<and> CacheManager_get ''k'' 61000 Answers Answers
       [\<lparr>cache_key = ''k'', cache_value = ''v'', expires_at = 60000\<rparr>] = (Inr None, [])
   \<and> CacheManager_get ''k'' 60000 Answers Answers
       [\<lparr>cache_key = ''k'', cache_value = ''v'', expires_at = 60000\<rparr>] =
     (Inr (Some ''v''), [\<lparr>cache_key = ''k'', cache_value = ''v'', expires_at = 60000\<rparr>])"
proof -
  let ?r = "\<lparr>cache_key = ''k'', cache_value = ''v'', expires_at = (60000::int)\<rparr>"
  have pk: "primary_key [?r]" by (simp add: primary_key_def)
  have a: "CacheManager_get ''k'' 61000 Answers Rejects [?r] = (Inr None, [?r])"
    using C2_get_never_serves_expired [of "''k''" 61000 Answers Rejects "[?r]" "''v''" "[?r]" ?r] pk
    by (simp add: delete_Answers delete_fails)
  have b: "CacheManager_get ''k'' 61000 Answers Answers [?r] = (Inr None, [])"
    using C2_get_never_serves_expired [of "''k''" 61000 Answers Answers "[?r]" "''v''" "[?r]" ?r] pk
    by (simp add: delete_Answers delete_fails)
  have c: "CacheManager_get ''k'' 60000 Answers Answers [?r] = (Inr (Some ''v''), [?r])"
    using C2_get_never_serves_expired [of "''k''" 60000 Answers Answers "[?r]" "''v''" "[?r]" ?r] pk
    by (simp add: delete_Answers delete_fails)
  show ?thesis using a b c by simp
qed

section \<open>The time-to-live and its default\<close>

text \<open>
  C3 says the cache hardcodes no default time-to-live. The parameter is declared
  \<^verbatim>\<open>ttlMinutes = 60\<close>: a call that leaves it out stores an expiry one hour
  (3600000 ms) after the clock.
\<close>

theorem C3_no_default_ttl_counterexample:
  "CacheManager_set ''k'' ''v'' None 0 Answers [] =
     (Inr True, [\<lparr>cache_key = ''k'', cache_value = ''v'', expires_at = 3600000\<rparr>])"
  by (simp add: CacheManager_set_def try_catch_def set_body_def upsert_def
      new_Date_def toISOString_def ttl_or_default_def)

text \<open>
  C3, as the code has it. \<open>set\<close> takes any time-to-live the caller passes and stores
  the expiry \<open>now + ttl * 60 * 1000\<close> (whenever that is a valid date and the backend
  answers); a call that passes none behaves as the call with 60 minutes.
\<close>

theorem C3_ttl_as_passed_or_sixty_minutes:
  "(\<bar>now + ttl * 60 * 1000\<bar> \<le> 8640000000000000 \<longrightarrow>
      CacheManager_set key value (Some ttl) now Answers tbl =
        (Inr True,
         upsert_row \<lparr>cache_key = key, cache_value = value,
           expires_at = now + ttl * 60 * 1000\<rparr> tbl))
   \<and> CacheManager_set key value None now ups tbl =
       CacheManager_set key value (Some 60) now ups tbl"
proof (intro conjI impI)
  assume "\<bar>now + ttl * 60 * 1000\<bar> \<le> 8640000000000000"
  then show "CacheManager_set key value (Some ttl) now Answers tbl =
        (Inr True,
         upsert_row \<lparr>cache_key = key, cache_value = value,
           expires_at = now + ttl * 60 * 1000\<rparr> tbl)"
    using set_Answers [of now "Some ttl" key "value" tbl] by (simp add: ttl_or_default_def)
next
  show "CacheManager_set key value None now ups tbl =
       CacheManager_set key value (Some 60) now ups tbl"
    by (simp add: CacheManager_set_def set_body_def ttl_or_default_def)
qed

theorem C3_ttl_as_passed_or_sixty_minutes_witness:
  "CacheManager_set ''k'' ''v'' (Some 1440) 7 Answers [] =
     (Inr True, [\<lparr>cache_key = ''k'', cache_value = ''v'', expires_at = 86400007\<rparr>])
   \<and> CacheManager_set ''k'' ''v'' None 7 Answers [] =
      CacheManager_set ''k'' ''v'' (Some 60) 7 Answers []"
  using C3_ttl_as_passed_or_sixty_minutes [of 7 1440 "''k''" "''v''" "[]" Answers]
  by simp

section \<open>Reading back what was written\<close>

text \<open>
  C4. For every non-empty key, every value and every time-to-live \<open>ttl > 0\<close>: after a
  successful \<open>set(key, value, ttl)\<close> on a table that keeps its primary key, with no
  write in between, a \<open>get(key)\<close> whose clock has not passed the computed expiry
  (and whose select the backend answers) returns \<open>value\<close> unchanged, and leaves the
  table as it is.
\<close>

theorem C4_get_after_set:
  assumes "key \<noteq> []" and "0 < ttl" and "primary_key tbl"
    and "CacheManager_set key value (Some ttl) now ups tbl = (Inr True, tbl')"
    and "now \<le> now'" and "now' \<le> now + ttl * 60 * 1000"
  shows "CacheManager_get key now' Answers del tbl' = (Inr (Some value), tbl')"
proof -
  let ?r = "\<lparr>cache_key = key, cache_value = value, expires_at = now + ttl * 60 * 1000\<rparr>"
  have row: "eq_key key tbl' = [?r]"
    using get_after_set [OF assms(3) assms(4)] by (simp add: ttl_or_default_def)
  have "\<not> expires_at ?r < now'" using assms(6) by simp
  from get_fresh [OF row this] show ?thesis by simp
qed

theorem C4_get_after_set_witness:
  "CacheManager_get ''geocode_manhattan'' 2000 Answers Rejects
     (snd (CacheManager_set ''geocode_manhattan'' ''40.78,-73.97'' (Some 1440) 1000 Answers [])) =
   (Inr (Some ''40.78,-73.97''),
    [\<lparr>cache_key = ''geocode_manhattan'', cache_value = ''40.78,-73.97'',
       expires_at = 86401000\<rparr>])"
proof -
  let ?tbl' = "[\<lparr>cache_key = ''geocode_manhattan'', cache_value = ''40.78,-73.97'',
       expires_at = (86401000::int)\<rparr>]"
  have k: "''geocode_manhattan'' \<noteq> []" by simp
  have t: "(0::int) < 1440" by simp
  have pk: "primary_key ([] :: string cache_table)" by (simp add: primary_key_def)
  have s: "CacheManager_set ''geocode_manhattan'' ''40.78,-73.97'' (Some 1440) 1000 Answers [] =
      (Inr True, ?tbl')"
    by (simp add: set_Answers ttl_or_default_def)
  have a: "(1000::int) \<le> 2000" by simp
  have b: "(2000::int) \<le> 1000 + 1440 * 60 * 1000" by simp
  show ?thesis using C4_get_after_set [OF k t pk s a b, of Rejects] s by simp
qed

section \<open>One entry per key\<close>

text \<open>
  C5. On a table that keeps its primary key there is at most one row under any key
  after each of \<open>set\<close>, \<open>get\<close> and \<open>delete\<close>, whatever the backend answers. A
  successful \<open>set\<close> of \<open>v1\<close> followed by a successful \<open>set\<close> of \<open>v2\<close>
  under the same key leaves exactly one row under the key, holding \<open>v2\<close> and the
  expiry of the second call, and a \<open>get\<close> before that expiry has passed returns
  \<open>v2\<close>.
\<close>

theorem C5_upsert_one_entry_per_key:
  assumes "primary_key tbl"
  shows "length (eq_key k (snd (CacheManager_set key v1 ttl1 now1 ups1 tbl))) \<le> 1
     \<and> length (eq_key k (snd (CacheManager_get key now sel del tbl))) \<le> 1
     \<and> length (eq_key k (snd (CacheManager_delete key del tbl))) \<le> 1
     \<and> (CacheManager_set key v1 ttl1 now1 ups1 tbl = (Inr True, tbl1) \<and>
         CacheManager_set key v2 ttl2 now2 ups2 tbl1 = (Inr True, tbl2) \<longrightarrow>
           primary_key tbl2
           \<and> eq_key key tbl2 =
               [\<lparr>cache_key = key, cache_value = v2,
                  expires_at = now2 + ttl_or_default ttl2 * 60 * 1000\<rparr>]
           \<and> (now3 \<le> now2 + ttl_or_default ttl2 * 60 * 1000 \<longrightarrow>
                CacheManager_get key now3 Answers del tbl2 = (Inr (Some v2), tbl2)))"
proof (intro conjI impI)
  show "length (eq_key k (snd (CacheManager_set key v1 ttl1 now1 ups1 tbl))) \<le> 1"
    by (rule length_eq_key [OF primary_key_set [OF assms]])
  show "length (eq_key k (snd (CacheManager_get key now sel del tbl))) \<le> 1"
    by (rule length_eq_key [OF primary_key_get [OF assms]])
  show "length (eq_key k (snd (CacheManager_delete key del tbl))) \<le> 1"
    by (rule length_eq_key [OF primary_key_delete [OF assms]])
next
  assume h: "CacheManager_set key v1 ttl1 now1 ups1 tbl = (Inr True, tbl1) \<and>
         CacheManager_set key v2 ttl2 now2 ups2 tbl1 = (Inr True, tbl2)"
  let ?r = "\<lparr>cache_key = key, cache_value = v2,
                  expires_at = now2 + ttl_or_default ttl2 * 60 * 1000\<rparr>"
  have pk1: "primary_key tbl1"
    using h primary_key_set [OF assms, of key v1 ttl1 now1 ups1] by simp
  from h have second: "CacheManager_set key v2 ttl2 now2 ups2 tbl1 = (Inr True, tbl2)"
    by simp
  show "primary_key tbl2"
    using second primary_key_set [OF pk1, of key v2 ttl2 now2 ups2] by simp
  show row: "eq_key key tbl2 = [?r]"
    by (rule get_after_set [OF pk1 second])
  show "CacheManager_get key now3 Answers del tbl2 = (Inr (Some v2), tbl2)"
    if "now3 \<le> now2 + ttl_or_default ttl2 * 60 * 1000"
  proof -
    have "\<not> expires_at ?r < now3" using that by simp
    from get_fresh [OF row this] show ?thesis by simp
  qed
qed

theorem C5_upsert_one_entry_per_key_witness:
  "CacheManager_set ''k'' ''v2'' (Some 60) 20 Answers
       [\<lparr>cache_key = ''k'', cache_value = ''v1'', expires_at = 3600010\<rparr>] =
     (Inr True, [\<lparr>cache_key = ''k'', cache_value = ''v2'', expires_at = 3600020\<rparr>])
   \<and> eq_key ''k'' [\<lparr>cache_key = ''k'', cache_value = ''v2'', expires_at = 3600020\<rparr>] =
       [\<lparr>cache_key = ''k'', cache_value = ''v2'', expires_at = 3600020\<rparr>]
   \<and> CacheManager_get ''k'' 30 Answers Answers
       [\<lparr>cache_key = ''k'', cache_value = ''v2'', expires_at = 3600020\<rparr>] =
     (Inr (Some ''v2''), [\<lparr>cache_key = ''k'', cache_value = ''v2'', expires_at = 3600020\<rparr>])"
proof -
  let ?t1 = "[\<lparr>cache_key = ''k'', cache_value = ''v1'', expires_at = (3600010::int)\<rparr>]"
  let ?t2 = "[\<lparr>cache_key = ''k'', cache_value = ''v2'', expires_at = (3600020::int)\<rparr>]"
  have pk: "primary_key ([] :: string cache_table)" by (simp add: primary_key_def)
  have s1: "CacheManager_set ''k'' ''v1'' (Some 60) 10 Answers [] = (Inr True, ?t1)"
    by (simp add: set_Answers ttl_or_default_def)
  have s2: "CacheManager_set ''k'' ''v2'' (Some 60) 20 Answers ?t1 = (Inr True, ?t2)"
    by (simp add: set_Answers ttl_or_default_def)
  show ?thesis
    using C5_upsert_one_entry_per_key [OF pk, of "''k''" "''k''" "''v1''" "Some 60" 10 Answers
        0 Answers Answers ?t1 "''v2''" "Some 60" 20 Answers ?t2 30] s1 s2
    by (simp add: ttl_or_default_def)
qed

section \<open>The expiry boundary\<close>

text \<open>
  C6. On a table that keeps its primary key, with the backend answering and the
  expiry a valid date: \<open>set(key, value, 1)\<close> at clock \<open>now\<close> returns \<open>true\<close> and
  writes the row, so that the one row under the key has the expiry
  \<open>now + 1 * 60 * 1000\<close> (the write time plus the minutes in milliseconds); on the
  table that \<open>set\<close> leaves, a \<open>get\<close> at the same clock returns the value and leaves
  the table as it is, and a \<open>get\<close> 61 seconds later returns absent.
\<close>

theorem C6_expiry_boundary:
  assumes "primary_key tbl" and "\<bar>now + 1 * 60 * 1000\<bar> \<le> 8640000000000000"
  shows "CacheManager_set key value (Some 1) now Answers tbl =
           (Inr True,
            upsert_row \<lparr>cache_key = key, cache_value = value,
              expires_at = now + 1 * 60 * 1000\<rparr> tbl)
         \<and> eq_key key (snd (CacheManager_set key value (Some 1) now Answers tbl)) =
           [\<lparr>cache_key = key, cache_value = value, expires_at = now + 1 * 60 * 1000\<rparr>]
         \<and> CacheManager_get key now Answers del
             (snd (CacheManager_set key value (Some 1) now Answers tbl)) =
           (Inr (Some value), snd (CacheManager_set key value (Some 1) now Answers tbl))
         \<and> fst (CacheManager_get key (now + 61 * 1000) Answers del
             (snd (CacheManager_set key value (Some 1) now Answers tbl))) = Inr None"
proof -
  let ?r = "\<lparr>cache_key = key, cache_value = value, expires_at = now + 1 * 60 * 1000\<rparr>"
  let ?tbl' = "snd (CacheManager_set key value (Some 1) now Answers tbl)"
  have written: "CacheManager_set key value (Some 1) now Answers tbl =
      (Inr True, upsert_row ?r tbl)"
    using set_Answers [of now "Some 1" key "value" tbl] assms(2)
    by (simp add: ttl_or_default_def)
  then have ok: "CacheManager_set key value (Some 1) now Answers tbl = (Inr True, ?tbl')"
    by simp
  have row: "eq_key key ?tbl' = [?r]"
    using get_after_set [OF assms(1) ok] by (simp add: ttl_or_default_def)
  have fresh: "\<not> expires_at ?r < now" by simp
  have old: "expires_at ?r < now + 61 * 1000" by simp
  have hit: "CacheManager_get key now Answers del ?tbl' = (Inr (Some value), ?tbl')"
    using get_fresh [OF row fresh, of del] by simp
  have miss: "fst (CacheManager_get key (now + 61 * 1000) Answers del ?tbl') = Inr None"
    using get_expired [OF row old, of del] by simp
  show ?thesis using written row hit miss by blast
qed

theorem C6_expiry_boundary_witness:
  "CacheManager_set ''k'' ''v'' (Some 1) 5000 Answers [] =
     (Inr True, [\<lparr>cache_key = ''k'', cache_value = ''v'', expires_at = 65000\<rparr>])
   \<and> CacheManager_get ''k'' 5000 Answers Answers
       (snd (CacheManager_set ''k'' ''v'' (Some 1) 5000 Answers [])) =
     (Inr (Some ''v''), [\<lparr>cache_key = ''k'', cache_value = ''v'', expires_at = 65000\<rparr>])
   \<and> fst (CacheManager_get ''k'' 66000 Answers Answers
       (snd (CacheManager_set ''k'' ''v'' (Some 1) 5000 Answers []))) =
     Inr (None :: string option)"
proof -
  have pk: "primary_key ([] :: string cache_table)" by (simp add: primary_key_def)
  have d: "\<bar>(5000::int) + 1 * 60 * 1000\<bar> \<le> 8640000000000000" by simp
  have w: "CacheManager_set ''k'' ''v'' (Some 1) 5000 Answers [] =
      (Inr True, [\<lparr>cache_key = ''k'', cache_value = ''v'', expires_at = 65000\<rparr>])"
    using C6_expiry_boundary [OF pk d, of "''k''" "''v''" Answers] by simp
  show ?thesis using C6_expiry_boundary [OF pk d, of "''k''" "''v''" Answers] w by simp
qed

section \<open>Storage failures stay inside the cache\<close>

text \<open>
  C7. Whenever the backend does not answer a request normally (the response carries
  an error, or the request promise rejects), \<open>get\<close> returns absent and
  \<open>set\<close> and \<open>delete\<close> return \<open>false\<close>, with the table unchanged; and for
  every input and every behaviour of the backend each of the three methods returns
  a value: none lets a thrown error reach its caller.
\<close>

theorem C7_storage_failures_absorbed:
  "(sel \<noteq> Answers \<longrightarrow> CacheManager_get key now sel del tbl = (Inr None, tbl))
   \<and> (ups \<noteq> Answers \<longrightarrow>
        CacheManager_set key value ttlMinutes now ups tbl = (Inr False, tbl))
   \<and> (del \<noteq> Answers \<longrightarrow> CacheManager_delete key del tbl = (Inr False, tbl))
   \<and> (\<exists>a. fst (CacheManager_get key now sel del tbl) = Inr a)
   \<and> (\<exists>b. fst (CacheManager_set key value ttlMinutes now ups tbl) = Inr b)
   \<and> (\<exists>b. fst (CacheManager_delete key del tbl) = Inr b)"
  using get_select_fails [of sel key now del tbl]
    set_fails [of ups key "value" ttlMinutes now tbl]
    delete_fails [of del key tbl]
    get_returns [of key now sel del tbl]
    set_returns [of key "value" ttlMinutes now ups tbl]
    delete_returns [of key del tbl]
  by blast

theorem C7_storage_failures_absorbed_witness:
  "CacheManager_get ''k'' 0 Rejects Rejects
       [\<lparr>cache_key = ''k'', cache_value = ''v'', expires_at = 60000\<rparr>] =
     (Inr None, [\<lparr>cache_key = ''k'', cache_value = ''v'', expires_at = 60000\<rparr>])
   \<and> CacheManager_set ''k'' ''w'' (Some 60) 0 AnswersError
       [\<lparr>cache_key = ''k'', cache_value = ''v'', expires_at = 60000\<rparr>] =
     (Inr False, [\<lparr>cache_key = ''k'', cache_value = ''v'', expires_at = 60000\<rparr>])
   \<and> CacheManager_delete ''k'' Rejects
       [\<lparr>cache_key = ''k'', cache_value = ''v'', expires_at = 60000\<rparr>] =
     (Inr False, [\<lparr>cache_key = ''k'', cache_value = ''v'', expires_at = 60000\<rparr>])"
  using C7_storage_failures_absorbed [of Rejects "''k''" 0 Rejects
      "[\<lparr>cache_key = ''k'', cache_value = ''v'', expires_at = 60000\<rparr>]"
      AnswersError "''w''" "Some 60"]
  by simp

section \<open>Retrying a write\<close>

text \<open>
  C8 says that for every \<open>(key, value, ttl)\<close> two identical calls of \<open>set\<close> leave
  the state one call leaves, and that \<open>get\<close> returns the value after each. With
  \<open>ttl = -1\<close> both calls succeed and leave the same row, yet that row is expired
  when it is written and \<open>get\<close> at the same clock returns absent. And with
  \<open>ttl = 60\<close>, a second call one second after the first moves the expiry from
  3600000 to 3601000: the table is not the one the first call alone left.
\<close>

theorem C8_set_retry_counterexample:
  "CacheManager_set ''k'' ''v'' (Some (- 1)) 0 Answers [] =
     (Inr True, [\<lparr>cache_key = ''k'', cache_value = ''v'', expires_at = - 60000\<rparr>])
   \<and> CacheManager_set ''k'' ''v'' (Some (- 1)) 0 Answers
       [\<lparr>cache_key = ''k'', cache_value = ''v'', expires_at = - 60000\<rparr>] =
     (Inr True, [\<lparr>cache_key = ''k'', cache_value = ''v'', expires_at = - 60000\<rparr>])
   \<and> CacheManager_get ''k'' 0 Answers Answers
       [\<lparr>cache_key = ''k'', cache_value = ''v'', expires_at = - 60000\<rparr>] = (Inr None, [])
   \<and> CacheManager_set ''k'' ''v'' (Some 60) 0 Answers [] =
     (Inr True, [\<lparr>cache_key = ''k'', cache_value = ''v'', expires_at = 3600000\<rparr>])
   \<and> CacheManager_set ''k'' ''v'' (Some 60) 1000 Answers
       [\<lparr>cache_key = ''k'', cache_value = ''v'', expires_at = 3600000\<rparr>] =
     (Inr True, [\<lparr>cache_key = ''k'', cache_value = ''v'', expires_at = 3601000\<rparr>])"
  by (simp add: CacheManager_set_def CacheManager_get_def CacheManager_delete_def
      try_catch_def set_body_def get_body_def delete_body_def upsert_def select_single_def
      delete_eq_def eq_key_def new_Date_def toISOString_def ttl_or_default_def)

text \<open>
  C8, as the code has it. For every key, value and \<open>ttl > 0\<close>, on a table that
  keeps its primary key: when \<open>set(key, value, ttl)\<close> succeeds at clock \<open>now1\<close>,
  and the same call made once at clock \<open>now2\<close> would succeed, then the second call
  at \<open>now2\<close> after the first succeeds too and leaves the table the single call at
  \<open>now2\<close> leaves: its value is the same and its expiry is taken from the second
  call's clock, so the table is the first call's when both read the same clock. After
  each of the two calls a \<open>get\<close> that is not later than that call's expiry returns
  the value.
\<close>

theorem C8_set_retry:
  assumes "primary_key tbl" and "0 < ttl"
    and "CacheManager_set key value (Some ttl) now1 ups1 tbl = (Inr True, tbl1)"
    and "CacheManager_set key value (Some ttl) now2 ups2 tbl = (Inr True, tbl2)"
  shows "CacheManager_set key value (Some ttl) now2 ups2 tbl1 = (Inr True, tbl2)
         \<and> (now2 = now1 \<longrightarrow> tbl2 = tbl1)
         \<and> (now1 \<le> g1 \<and> g1 \<le> now1 + ttl * 60 * 1000 \<longrightarrow>
              CacheManager_get key g1 Answers del tbl1 = (Inr (Some value), tbl1))
         \<and> (now2 \<le> g2 \<and> g2 \<le> now2 + ttl * 60 * 1000 \<longrightarrow>
              CacheManager_get key g2 Answers del tbl2 = (Inr (Some value), tbl2))"
proof (intro conjI impI)
  let ?r1 = "\<lparr>cache_key = key, cache_value = value, expires_at = now1 + ttl * 60 * 1000\<rparr>"
  let ?r2 = "\<lparr>cache_key = key, cache_value = value, expires_at = now2 + ttl * 60 * 1000\<rparr>"
  have t1: "tbl1 = upsert_row ?r1 tbl"
    using set_succeeds [OF assms(3)] by (simp add: ttl_or_default_def)
  have u2: "ups2 = Answers"
    and d2: "\<bar>now2 + ttl_or_default (Some ttl) * 60 * 1000\<bar> \<le> 8640000000000000"
    and t2: "tbl2 = upsert_row ?r2 tbl"
    using set_succeeds [OF assms(4)] by (simp_all add: ttl_or_default_def)
  have "upsert_row ?r2 (upsert_row ?r1 tbl) = upsert_row ?r2 tbl"
    by (rule upsert_row_twice) simp
  then show "CacheManager_set key value (Some ttl) now2 ups2 tbl1 = (Inr True, tbl2)"
    using set_Answers [OF d2, of key "value" tbl1] t1 t2 u2 by (simp add: ttl_or_default_def)
  show "tbl2 = tbl1" if "now2 = now1"
    using that t1 t2 by simp
  have row1: "eq_key key tbl1 = [?r1]"
    using get_after_set [OF assms(1) assms(3)] by (simp add: ttl_or_default_def)
  have row2: "eq_key key tbl2 = [?r2]"
    using get_after_set [OF assms(1) assms(4)] by (simp add: ttl_or_default_def)
  show "CacheManager_get key g1 Answers del tbl1 = (Inr (Some value), tbl1)"
    if "now1 \<le> g1 \<and> g1 \<le> now1 + ttl * 60 * 1000"
  proof -
    have "\<not> expires_at ?r1 < g1" using that by simp
    from get_fresh [OF row1 this] show ?thesis by simp
  qed
  show "CacheManager_get key g2 Answers del tbl2 = (Inr (Some value), tbl2)"
    if "now2 \<le> g2 \<and> g2 \<le> now2 + ttl * 60 * 1000"
  proof -
    have "\<not> expires_at ?r2 < g2" using that by simp
    from get_fresh [OF row2 this] show ?thesis by simp
  qed
qed

theorem C8_set_retry_witness:
  "CacheManager_set ''k'' ''v'' (Some 30) 1000 Answers
       [\<lparr>cache_key = ''k'', cache_value = ''v'', expires_at = 1800000\<rparr>] =
     (Inr True, [\<lparr>cache_key = ''k'', cache_value = ''v'', expires_at = 1801000\<rparr>])
   \<and> CacheManager_get ''k'' 500 Answers Answers
       [\<lparr>cache_key = ''k'', cache_value = ''v'', expires_at = 1800000\<rparr>] =
     (Inr (Some ''v''), [\<lparr>cache_key = ''k'', cache_value = ''v'', expires_at = 1800000\<rparr>])
   \<and> CacheManager_get ''k'' 1500 Answers Answers
       [\<lparr>cache_key = ''k'', cache_value = ''v'', expires_at = 1801000\<rparr>] =
     (Inr (Some ''v''), [\<lparr>cache_key = ''k'', cache_value = ''v'', expires_at = 1801000\<rparr>])"
proof -
  have pk: "primary_key ([] :: string cache_table)" by (simp add: primary_key_def)
  have t: "(0::int) < 30" by simp
  have s1: "CacheManager_set ''k'' ''v'' (Some 30) 0 Answers [] =
      (Inr True, [\<lparr>cache_key = ''k'', cache_value = ''v'', expires_at = 1800000\<rparr>])"
    by (simp add: set_Answers ttl_or_default_def)
  have s2: "CacheManager_set ''k'' ''v'' (Some 30) 1000 Answers [] =
      (Inr True, [\<lparr>cache_key = ''k'', cache_value = ''v'', expires_at = 1801000\<rparr>])"
    by (simp add: set_Answers ttl_or_default_def)
  show ?thesis using C8_set_retry [OF pk t s1 s2, of 500 Answers 1500] by simp
qed

section \<open>Entries written already expired\<close>

text \<open>
  C9. \<open>set\<close> does not validate its arguments: for any key, the empty one included,
  and any \<open>ttl \<le> 0\<close>, when the upsert is sent (the expiry is a valid date) and the
  backend answers it without error, \<open>set\<close> returns \<open>true\<close> and the one row under
  the key holds the value and an expiry at or before the write time. Every \<open>get\<close>
  at a strictly later clock then returns absent, and so does a \<open>get\<close> after that
  one, whatever the backend answers.
\<close>

theorem C9_nonpositive_ttl_stored_expired:
  assumes "ttl \<le> 0" and "primary_key tbl"
    and "toISOString (new_Date (now + ttl * 60 * 1000)) = Inr stamp"
    and "upsert ups \<lparr>cache_key = key, cache_value = value, expires_at = stamp\<rparr> tbl =
           (Inr resp, tbl')"
    and "error resp = None"
  shows "CacheManager_set key value (Some ttl) now ups tbl = (Inr True, tbl')
         \<and> eq_key key tbl' = [\<lparr>cache_key = key, cache_value = value, expires_at = stamp\<rparr>]
         \<and> stamp = now + ttl * 60 * 1000 \<and> stamp \<le> now
         \<and> (now < now' \<longrightarrow> fst (CacheManager_get key now' sel del tbl') = Inr None)
         \<and> (now < now' \<and> now < now'' \<longrightarrow>
              fst (CacheManager_get key now'' sel' del'
                     (snd (CacheManager_get key now' sel del tbl'))) = Inr None)"
proof -
  let ?r = "\<lparr>cache_key = key, cache_value = value, expires_at = stamp\<rparr>"
  have st: "stamp = now + ttl * 60 * 1000"
    using assms(3) by (simp add: toISOString_def new_Date_def split: if_splits)
  have le: "stamp \<le> now" using st assms(1) by simp
  have u: "ups = Answers"
    using assms(4,5) by (cases ups) (auto simp: upsert_def)
  then have t': "tbl' = upsert_row ?r tbl" using assms(4) by (simp add: upsert_def)
  have ok: "CacheManager_set key value (Some ttl) now ups tbl = (Inr True, tbl')"
    using assms(3,4,5)
    by (simp add: CacheManager_set_def try_catch_def set_body_def ttl_or_default_def)
  have row: "eq_key key tbl' = [?r]"
    using eq_key_upsert_row [OF assms(2), of ?r] t' by simp
  have expired: "fst (CacheManager_get key t s d tbl') = Inr None" if "now < t" for t s d
  proof (cases "s = Answers")
    case False
    then show ?thesis by (simp add: get_select_fails)
  next
    case True
    have "expires_at ?r < t" using le that by simp
    from get_expired [OF row this] True show ?thesis by simp
  qed
  have again: "fst (CacheManager_get key now'' sel' del'
      (snd (CacheManager_get key now' sel del tbl'))) = Inr None"
    if "now < now' \<and> now < now''"
  proof (cases "snd (CacheManager_get key now' sel del tbl') = tbl'")
    case True
    then show ?thesis using expired [of now'' sel' del'] that by simp
  next
    case False
    then have "snd (CacheManager_get key now' sel del tbl') =
        snd (CacheManager_delete key del tbl')"
      using get_table [of key now' sel del tbl'] by simp
    moreover have "del = Answers"
      using False calculation delete_fails [of del key tbl'] by (cases "del = Answers") auto
    ultimately have "snd (CacheManager_get key now' sel del tbl') =
        filter (\<lambda>x. cache_key x \<noteq> key) tbl'"
      by (simp add: delete_Answers)
    then show ?thesis
      using get_not_single [of key "filter (\<lambda>x. cache_key x \<noteq> key) tbl'" now'' sel' del']
      by (simp add: eq_key_deleted)
  qed
  show ?thesis using ok row st le expired [of now' sel del] again by simp
qed

theorem C9_nonpositive_ttl_stored_expired_witness:
  "CacheManager_set [] ''v'' (Some 0) 1000 Answers
       [\<lparr>cache_key = [], cache_value = ''u'', expires_at = 999999\<rparr>] =
     (Inr True, [\<lparr>cache_key = [], cache_value = ''v'', expires_at = 1000\<rparr>])
   \<and> fst (CacheManager_get [] 1001 Answers Rejects
       [\<lparr>cache_key = [], cache_value = ''v'', expires_at = 1000\<rparr>]) = Inr (None :: string option)
   \<and> fst (CacheManager_get [] 1002 Answers Answers
       (snd (CacheManager_get [] 1001 Answers Rejects
          [\<lparr>cache_key = [], cache_value = ''v'', expires_at = 1000\<rparr>]))) =
       Inr (None :: string option)"
proof -
  let ?tbl = "[\<lparr>cache_key = [], cache_value = ''u'', expires_at = (999999::int)\<rparr>]"
  let ?r = "\<lparr>cache_key = [], cache_value = ''v'', expires_at = (1000::int)\<rparr>"
  have t: "(0::int) \<le> 0" by simp
  have pk: "primary_key ?tbl" by (simp add: primary_key_def)
  have d: "toISOString (new_Date (1000 + 0 * 60 * 1000)) = Inr 1000"
    by (simp add: toISOString_def new_Date_def)
  have u: "upsert Answers ?r ?tbl = (Inr \<lparr>data = None, error = None\<rparr>, [?r])"
    by (simp add: upsert_def)
  have e: "error \<lparr>data = (None :: unit option), error = None\<rparr> = None" by simp
  have l: "(1000::int) < 1001 \<and> (1000::int) < 1002" by simp
  show ?thesis
    using C9_nonpositive_ttl_stored_expired [OF t pk d u e, of 1001 Answers Rejects 1002 Answers Answers] l
    by simp
qed

section \<open>Eviction is complete when the miss is returned\<close>

text \<open>
  C10. When \<open>get(key)\<close> finds the row under the key expired, it awaits
  \<open>delete(key)\<close> before it returns: whenever that delete succeeds, the table
  \<open>get\<close> leaves behind with its result absent has no row under the key (and
  still holds every row of the other keys).
\<close>

theorem C10_eviction_before_return:
  assumes "primary_key tbl" and "r \<in> set tbl" and "cache_key r = key"
    and "expires_at r < now"
    and "fst (CacheManager_delete key del tbl) = Inr True"
  shows "CacheManager_get key now Answers del tbl =
           (Inr None, filter (\<lambda>x. cache_key x \<noteq> key) tbl)
         \<and> eq_key key (snd (CacheManager_get key now Answers del tbl)) = []"
proof -
  have row: "eq_key key tbl = [r]" using assms(1-3) eq_key_member [of tbl r] by auto
  have d: "del = Answers" using assms(5) delete_fails [of del key tbl] by (cases "del = Answers") auto
  have "CacheManager_get key now Answers del tbl =
      (Inr None, snd (CacheManager_delete key del tbl))"
    by (rule get_expired [OF row assms(4)])
  then show ?thesis using d by (simp add: delete_Answers eq_key_deleted)
qed

theorem C10_eviction_before_return_witness:
  "CacheManager_get ''k'' 90000 Answers Answers
     [\<lparr>cache_key = ''j'', cache_value = ''u'', expires_at = 99000\<rparr>,
      \<lparr>cache_key = ''k'', cache_value = ''v'', expires_at = 60000\<rparr>] =
   (Inr None, [\<lparr>cache_key = ''j'', cache_value = ''u'', expires_at = 99000\<rparr>])"
proof -
  let ?j = "\<lparr>cache_key = ''j'', cache_value = ''u'', expires_at = (99000::int)\<rparr>"
  let ?k = "\<lparr>cache_key = ''k'', cache_value = ''v'', expires_at = (60000::int)\<rparr>"
  have pk: "primary_key [?j, ?k]" by (simp add: primary_key_def)
  have m: "?k \<in> set [?j, ?k]" by simp
  have c: "cache_key ?k = ''k''" by simp
  have e: "expires_at ?k < 90000" by simp
  have d: "fst (CacheManager_delete ''k'' Answers [?j, ?k]) = Inr True"
    by (simp add: delete_Answers)
  show ?thesis using C10_eviction_before_return [OF pk m c e d] by simp
qed

end
